theory Spec2Isabelle
  imports Complex_Main
begin

section \<open>Welford's online variance: the accumulator of \<^verbatim>\<open>welford.py\<close>\<close>

text \<open>
  The class \<^verbatim>\<open>Welford\<close> keeps three private fields: \<^verbatim>\<open>__count\<close> (a Python int),
  \<^verbatim>\<open>__m1\<close> (the running mean) and \<^verbatim>\<open>__m2\<close> (the running sum of squared differences
  from the mean). Its methods mutate the receiver in place and return it.

  Numbers: the count is an unbounded integer. The two float fields and every scalar
  observation are taken over exact arithmetic, as real numbers; rounding, infinities and
  not-a-number inputs are outside this development. The one not-a-number the code
  itself produces, \<^verbatim>\<open>float('nan')\<close> in the variance queries, is the constructor \<open>NaN\<close>
  of the type of query results. Python raises \<^verbatim>\<open>ZeroDivisionError\<close> on a division by
  zero, also of floats, and \<^verbatim>\<open>math.sqrt\<close> raises \<^verbatim>\<open>ValueError\<close> on a negative argument:
  both are values of the error type, and every division of the source is guarded by the
  test Python makes.

  Objects: accumulators are mutable and may be aliased (\<^verbatim>\<open>x.merge(x)\<close>), so the model
  has an explicit store that maps the identity of an object to its fields. A method takes
  the store and returns its result (or the exception raised) with the store at that point.
\<close>

subsection \<open>Data\<close>

record welford =
  count :: int
  m1 :: real
  m2 :: real

type_synonym addr = nat

type_synonym heap = "addr \<Rightarrow> welford"

datatype py_error = ZeroDivisionError | ValueError

datatype pyfloat = NaN | Fin real

text \<open>
  What \<^verbatim>\<open>add\<close> may be given: a scalar, or an instance of the class
  (\<^verbatim>\<open>isinstance(elem, Welford)\<close>), named by its identity.
\<close>

datatype elem = Num real | Obj addr

text \<open>
  What \<^verbatim>\<open>__init__\<close> may be given as \<^verbatim>\<open>data\<close>: \<^verbatim>\<open>None\<close>, an iterable of elements
  (\<^verbatim>\<open>isinstance(data, Iterable)\<close>), or anything else, which goes to \<^verbatim>\<open>add\<close>. The class
  defines no \<^verbatim>\<open>__iter__\<close>, so an accumulator is not an iterable: it is an \<open>Elem (Obj w)\<close>.
\<close>

datatype data = PyNone | Iterable "elem list" | Elem elem

type_synonym 'a result = "(py_error + 'a) \<times> heap"

subsection \<open>Read-only properties\<close>

definition acc :: "welford \<Rightarrow> int \<times> real \<times> real" where
  "acc s = (count s, m1 s, m2 s)"

definition mean :: "welford \<Rightarrow> real" where
  "mean s = m1 s"

definition var :: "welford \<Rightarrow> pyfloat" where
  "var s = (if count s < 2 then NaN else Fin (m2 s / of_int (count s - 1)))"

definition varp :: "welford \<Rightarrow> pyfloat" where
  "varp s = (if count s < 2 then NaN else Fin (m2 s / of_int (count s)))"

text \<open>\<^verbatim>\<open>math.sqrt\<close>: not-a-number goes through, a negative number raises.\<close>

fun math_sqrt :: "pyfloat \<Rightarrow> py_error + pyfloat" where
  "math_sqrt NaN = Inr NaN"
| "math_sqrt (Fin v) = (if v < 0 then Inl ValueError else Inr (Fin (sqrt v)))"

definition std :: "welford \<Rightarrow> py_error + pyfloat" where
  "std s = math_sqrt (var s)"

definition stdp :: "welford \<Rightarrow> py_error + pyfloat" where
  "stdp s = math_sqrt (varp s)"

subsection \<open>Methods\<close>

text \<open>
  \<^verbatim>\<open>merge\<close>: the first division, in the line that computes \<^verbatim>\<open>m1\<close>, raises when the
  combined count is zero, before any field of the receiver is assigned.
\<close>

definition merge :: "addr \<Rightarrow> addr \<Rightarrow> heap \<Rightarrow> addr result" where
  "merge self other h =
     (let count' = count (h self) + count (h other);
          delta = m1 (h self) - m1 (h other);
          delta2 = delta * delta
      in if count' = 0 then (Inl ZeroDivisionError, h)
         else
           let m1' = (of_int (count (h self)) * m1 (h self)
                        + of_int (count (h other)) * m1 (h other)) / of_int count';
               m2' = m2 (h self) + m2 (h other)
                        + delta2 * of_int (count (h self) * count (h other)) / of_int count'
           in (Inr self, h(self := \<lparr>count = count', m1 = m1', m2 = m2'\<rparr>)))"

text \<open>
  \<^verbatim>\<open>add\<close>: an accumulator argument goes to \<^verbatim>\<open>merge\<close>, whose result is dropped; a scalar
  is folded in by three assignments, the count first. The division by the new count
  raises when that count is zero, after the count has been stored.
\<close>

definition add :: "addr \<Rightarrow> elem \<Rightarrow> heap \<Rightarrow> addr result" where
  "add self e h =
     (case e of
        Obj other \<Rightarrow>
          (case merge self other h of
             (Inl err, h') \<Rightarrow> (Inl err, h')
           | (Inr _, h') \<Rightarrow> (Inr self, h'))
      | Num x \<Rightarrow>
          (let h1 = h(self := (h self)\<lparr>count := count (h self) + 1\<rparr>);
               delta = x - m1 (h1 self)
           in if count (h1 self) = 0 then (Inl ZeroDivisionError, h1)
              else
                let h2 = h1(self := (h1 self)\<lparr>m1 := m1 (h1 self) + delta / of_int (count (h1 self))\<rparr>);
                    h3 = h2(self := (h2 self)\<lparr>m2 := m2 (h2 self) + delta * (x - m1 (h2 self))\<rparr>)
                in (Inr self, h3)))"

text \<open>\<^verbatim>\<open>add_all\<close>: the loop over the iterable; an exception of \<^verbatim>\<open>add\<close> ends it.\<close>

fun add_all :: "addr \<Rightarrow> elem list \<Rightarrow> heap \<Rightarrow> addr result" where
  "add_all self [] h = (Inr self, h)"
| "add_all self (e # es) h =
     (case add self e h of
        (Inl err, h') \<Rightarrow> (Inl err, h')
      | (Inr _, h') \<Rightarrow> add_all self es h')"

text \<open>
  \<^verbatim>\<open>__init__\<close> runs on the object being constructed, \<open>self\<close>: it sets the three
  fields and then folds the optional data in.
\<close>

definition empty_acc :: welford where
  "empty_acc = \<lparr>count = 0, m1 = 0, m2 = 0\<rparr>"

definition init :: "addr \<Rightarrow> data \<Rightarrow> heap \<Rightarrow> unit result" where
  "init self d h =
     (let h0 = h(self := empty_acc)
      in case d of
           PyNone \<Rightarrow> (Inr (), h0)
         | Iterable es \<Rightarrow>
             (case add_all self es h0 of
                (Inl err, h') \<Rightarrow> (Inl err, h')
              | (Inr _, h') \<Rightarrow> (Inr (), h'))
         | Elem e \<Rightarrow>
             (case add self e h0 of
                (Inl err, h') \<Rightarrow> (Inl err, h')
              | (Inr _, h') \<Rightarrow> (Inr (), h')))"

subsection \<open>The textbook statistics of a list\<close>

text \<open>
  The two-pass sample variance as the textbooks give it: first the mean of the list,
  then the sum of the squared deviations from it, divided by one less than the length.
\<close>

definition list_mean :: "real list \<Rightarrow> real" where
  "list_mean xs = sum_list xs / real (length xs)"

definition sum_sq_dev :: "real list \<Rightarrow> real" where
  "sum_sq_dev xs = (\<Sum>x\<leftarrow>xs. (x - list_mean xs)\<^sup>2)"

definition two_pass_var :: "real list \<Rightarrow> real" where
  "two_pass_var xs = sum_sq_dev xs / (real (length xs) - 1)"

text \<open>
  The state an accumulator holds after the values of a list have been folded in, in
  terms of the list alone. On the empty list the mean is \<open>0 / 0\<close>, which is \<open>0\<close>
  in HOL, and so is the sum of squared deviations: the state of a new accumulator.
\<close>

definition summary :: "real list \<Rightarrow> welford" where
  "summary xs = \<lparr>count = int (length xs), m1 = list_mean xs, m2 = sum_sq_dev xs\<rparr>"

text \<open>The sum of the squares of a list, through which the two recurrences are compared.\<close>

definition sumsq :: "real list \<Rightarrow> real" where
  "sumsq xs = (\<Sum>x\<leftarrow>xs. x\<^sup>2)"

text \<open>
  A state the methods can produce from a new accumulator: the count and the sum of
  squared differences are not negative.
\<close>

definition valid :: "welford \<Rightarrow> bool" where
  "valid s = (0 \<le> count s \<and> 0 \<le> m2 s)"

text \<open>A store in which every object is a new accumulator, for the worked examples.\<close>

definition store0 :: heap where
  "store0 = (\<lambda>_. empty_acc)"

section \<open>The methods, as equations on the store\<close>

lemma merge_eq:
  "count (h self) + count (h other) \<noteq> 0 \<Longrightarrow>
   merge self other h =
     (Inr self,
      h(self := \<lparr>count = count (h self) + count (h other),
                  m1 = (of_int (count (h self)) * m1 (h self)
                          + of_int (count (h other)) * m1 (h other))
                        / of_int (count (h self) + count (h other)),
                  m2 = m2 (h self) + m2 (h other)
                        + (m1 (h self) - m1 (h other))\<^sup>2
                            * of_int (count (h self) * count (h other))
                          / of_int (count (h self) + count (h other))\<rparr>))"
  by (simp add: merge_def Let_def power2_eq_square)



lemma merge_frame: "y \<noteq> self \<Longrightarrow> snd (merge self other h) y = h y"
  by (simp add: merge_def Let_def)


lemma add_Num_eq:
  "count (h self) \<noteq> - 1 \<Longrightarrow>
   add self (Num x) h =
     (Inr self,
      h(self := \<lparr>count = count (h self) + 1,
                  m1 = m1 (h self) + (x - m1 (h self)) / of_int (count (h self) + 1),
                  m2 = m2 (h self)
                        + (x - m1 (h self))
                          * (x - (m1 (h self) + (x - m1 (h self)) / of_int (count (h self) + 1)))\<rparr>))"
  by (cases "h self") (simp add: add_def Let_def)

section \<open>Arithmetic of the two recurrences\<close>

lemma mean_step_alg:
  fixes n k S x :: real
  assumes "n \<noteq> 0" "k \<noteq> 0" and k: "k = n + 1"
  shows "(S + x) / k = S / n + (x - S / n) / k"
proof -
  have eq: "((S + x) / k) * (n * k) = (S / n + (x - S / n) / k) * (n * k)"
    using assms(1,2) by (simp add: field_simps) (simp add: k algebra_simps)
  have nz: "n * k \<noteq> 0" using assms(1,2) by simp
  from nz eq show ?thesis by (rule mult_right_cancel [THEN iffD1])
qed

lemma ssd_step_alg:
  fixes n k S Q x :: real
  assumes "n \<noteq> 0" "k \<noteq> 0" and k: "k = n + 1"
  shows "Q + x\<^sup>2 - (S + x)\<^sup>2 / k =
         Q - S\<^sup>2 / n + (x - S / n) * (x - (S + x) / k)"
proof -
  have eq: "(Q + x\<^sup>2 - (S + x)\<^sup>2 / k) * (n * k) =
        (Q - S\<^sup>2 / n + (x - S / n) * (x - (S + x) / k)) * (n * k)"
    using assms(1,2) by (simp add: field_simps power2_eq_square) (simp add: k algebra_simps)
  have nz: "n * k \<noteq> 0" using assms(1,2) by simp
  from nz eq show ?thesis by (rule mult_right_cancel [THEN iffD1])
qed

lemma ssd_merge_alg:
  fixes n m k S T Q R :: real
  assumes "n \<noteq> 0" "m \<noteq> 0" "k \<noteq> 0" and k: "k = n + m"
  shows "Q + R - (S + T)\<^sup>2 / k =
         (Q - S\<^sup>2 / n) + (R - T\<^sup>2 / m) + (S / n - T / m)\<^sup>2 * (n * m) / k"
proof -
  have eq: "(Q + R - (S + T)\<^sup>2 / k) * (n * m * k) =
        ((Q - S\<^sup>2 / n) + (R - T\<^sup>2 / m) + (S / n - T / m)\<^sup>2 * (n * m) / k) * (n * m * k)"
    using assms(1,2,3) by (simp add: field_simps power2_eq_square) (simp add: k algebra_simps)
  have nz: "n * m * k \<noteq> 0" using assms(1,2,3) by simp
  from nz eq show ?thesis by (rule mult_right_cancel [THEN iffD1])
qed

section \<open>The statistics of a list, one value or one sublist at a time\<close>

lemma sum_sq_shift:
  "(\<Sum>x\<leftarrow>xs. (x - c)\<^sup>2) = sumsq xs - 2 * c * sum_list xs + real (length xs) * c\<^sup>2"
  by (induction xs) (simp_all add: sumsq_def power2_eq_square algebra_simps)

lemma sum_sq_dev_eq:
  "sum_sq_dev xs = sumsq xs - (sum_list xs)\<^sup>2 / real (length xs)"
proof (cases "xs = []")
  case True
  then show ?thesis by (simp add: sum_sq_dev_def sumsq_def)
next
  case False
  then have "real (length xs) \<noteq> 0" by simp
  then show ?thesis
    unfolding sum_sq_dev_def sum_sq_shift list_mean_def
    by (simp add: field_simps power2_eq_square)
qed

lemma sumsq_append: "sumsq (as @ bs) = sumsq as + sumsq bs"
  by (simp add: sumsq_def)

lemma sum_sq_dev_Nil: "sum_sq_dev [] = 0"
  by (simp add: sum_sq_dev_def)

lemma list_mean_Nil: "list_mean [] = 0"
  by (simp add: list_mean_def)

lemma summary_Nil: "summary [] = empty_acc"
  by (simp add: summary_def empty_acc_def list_mean_Nil sum_sq_dev_Nil)

lemma list_mean_snoc:
  "list_mean (ys @ [x]) = list_mean ys + (x - list_mean ys) / (real (length ys) + 1)"
proof (cases "ys = []")
  case True
  then show ?thesis by (simp add: list_mean_def)
next
  case False
  then have "real (length ys) \<noteq> 0" "real (length ys) + 1 \<noteq> 0" by simp_all
  then show ?thesis
    using mean_step_alg [of "real (length ys)" "real (length ys) + 1" "sum_list ys" x]
    by (simp add: list_mean_def add.commute)
qed

lemma sum_sq_dev_snoc:
  "sum_sq_dev (ys @ [x]) = sum_sq_dev ys + (x - list_mean ys) * (x - list_mean (ys @ [x]))"
proof (cases "ys = []")
  case True
  then show ?thesis by (simp add: list_mean_def sum_sq_dev_def)
next
  case False
  then have "real (length ys) \<noteq> 0" "real (length ys) + 1 \<noteq> 0" by simp_all
  then show ?thesis
    using ssd_step_alg [of "real (length ys)" "real (length ys) + 1" "sumsq ys" x "sum_list ys"]
    by (simp add: sum_sq_dev_eq sumsq_append list_mean_def sumsq_def add.commute)
qed

lemma list_mean_append:
  assumes "as @ bs \<noteq> []"
  shows "list_mean (as @ bs) =
           (real (length as) * list_mean as + real (length bs) * list_mean bs)
             / real (length as + length bs)"
proof -
  have "real (length as) * list_mean as = sum_list as"
    by (cases "as = []") (simp_all add: list_mean_def)
  moreover have "real (length bs) * list_mean bs = sum_list bs"
    by (cases "bs = []") (simp_all add: list_mean_def)
  ultimately show ?thesis by (simp add: list_mean_def)
qed

lemma sum_sq_dev_append:
  assumes "as @ bs \<noteq> []"
  shows "sum_sq_dev (as @ bs) =
           sum_sq_dev as + sum_sq_dev bs
             + (list_mean as - list_mean bs)\<^sup>2 * real (length as * length bs)
               / real (length as + length bs)"
proof (cases "as = []")
  case True
  then show ?thesis by (simp add: sum_sq_dev_Nil)
next
  case a: False
  show ?thesis
  proof (cases "bs = []")
    case True
    then show ?thesis by (simp add: sum_sq_dev_Nil)
  next
    case b: False
    from a b have pos: "0 < real (length as)" "0 < real (length bs)" by simp_all
    then have "real (length as) \<noteq> 0" "real (length bs) \<noteq> 0"
      "real (length as) + real (length bs) \<noteq> 0" by linarith+
    then show ?thesis
      using ssd_merge_alg [of "real (length as)" "real (length bs)"
          "real (length as) + real (length bs)" "sumsq as" "sumsq bs" "sum_list as" "sum_list bs"]
      by (simp add: sum_sq_dev_eq sumsq_append list_mean_def)
  qed
qed

section \<open>Folding a list in, and merging two folds\<close>

lemma add_summary:
  assumes "h self = summary ys"
  shows "add self (Num x) h = (Inr self, h(self := summary (ys @ [x])))"
proof -
  have "count (h self) \<noteq> - 1"
    using assms by (simp add: summary_def)
  then show ?thesis
    using assms
    by (simp add: add_Num_eq summary_def sum_sq_dev_snoc list_mean_snoc add.commute)
qed

lemma add_all_summary:
  "h self = summary ys \<Longrightarrow>
   add_all self (map Num xs) h = (Inr self, h(self := summary (ys @ xs)))"
proof (induction xs arbitrary: ys h)
  case Nil
  then show ?case by (simp add: fun_upd_idem)
next
  case (Cons x xs)
  have step: "add self (Num x) h = (Inr self, h(self := summary (ys @ [x])))"
    using Cons.prems by (rule add_summary)
  have rest: "add_all self (map Num xs) (h(self := summary (ys @ [x])))
      = (Inr self, (h(self := summary (ys @ [x])))(self := summary ((ys @ [x]) @ xs)))"
    by (rule Cons.IH) simp
  show ?case
    by (simp add: step rest del: fun_upd_apply)
qed

lemma add_all_empty:
  "h self = empty_acc \<Longrightarrow>
   add_all self (map Num xs) h = (Inr self, h(self := summary xs))"
  using add_all_summary [of h self "[]" xs] by (simp add: summary_Nil)

lemma merge_summary:
  assumes "h x = summary as" "h y = summary bs" "as @ bs \<noteq> []"
  shows "merge x y h = (Inr x, h(x := summary (as @ bs)))"
proof -
  have "count (h x) + count (h y) \<noteq> 0"
    using assms by (simp add: summary_def flip: of_nat_add)
  then show ?thesis
    using assms
    by (simp add: merge_eq summary_def list_mean_append sum_sq_dev_append)
qed

lemma var_summary:
  "2 \<le> length xs \<Longrightarrow> var (summary xs) = Fin (two_pass_var xs)"
  by (simp add: var_def summary_def two_pass_var_def)

lemma summary_append_commute: "summary (bs @ as) = summary (as @ bs)"
  by (simp add: summary_def list_mean_def sum_sq_dev_eq sumsq_append add.commute)

section \<open>Construction\<close>

lemma init_Num:
  "init self (Elem (Num x)) h = (Inr (), h(self := \<lparr>count = 1, m1 = x, m2 = 0\<rparr>))"
  by (simp add: init_def add_Num_eq empty_acc_def)



section \<open>The states the methods keep to\<close>

lemma valid_empty_acc: "valid empty_acc"
  by (simp add: valid_def empty_acc_def)








section \<open>Properties of the accumulator\<close>

text \<open>
  C1. \<^verbatim>\<open>add\<close> of a scalar \<open>x\<close> on an accumulator in the state \<open>(n, mu, M2)\<close> leaves
  it in the state of Welford's recurrence, taken in this order: \<open>n' = n + 1\<close>,
  \<open>delta = x - mu\<close>, \<open>mu' = mu + delta / n'\<close>, \<open>M2' = M2 + delta * (x - mu')\<close> with the
  updated mean in the last factor. It returns the accumulator itself, and no other object
  of the store changes. The count of an accumulator is never negative; the one count
  left out, \<open>- 1\<close>, is where the new count would be zero.
\<close>

theorem add_scalar_recurrence:
  assumes "h self = \<lparr>count = n, m1 = mu, m2 = M2\<rparr>" and "n \<noteq> - 1"
  shows "add self (Num x) h =
           (let n' = n + 1;
                delta = x - mu;
                mu' = mu + delta / of_int n';
                M2' = M2 + delta * (x - mu')
            in (Inr self, h(self := \<lparr>count = n', m1 = mu', m2 = M2'\<rparr>)))"
  using assms by (simp add: add_Num_eq Let_def)

theorem add_scalar_recurrence_witness:
  "add 0 (Num 4) (store0(0 := \<lparr>count = 1, m1 = 2, m2 = 0\<rparr>))
     = (Inr 0, store0(0 := \<lparr>count = 2, m1 = 3, m2 = 2\<rparr>))"
  using add_scalar_recurrence [of "store0(0 := \<lparr>count = 1, m1 = 2, m2 = 0\<rparr>)" 0 1 2 0 4]
  by (simp add: Let_def)

text \<open>
  C2. \<^verbatim>\<open>merge\<close> on a receiver in the state \<open>(n_a, mean_a, m2_a)\<close> with an argument in
  the state \<open>(n_b, mean_b, m2_b)\<close>, where \<open>n_a + n_b\<close> is at least one, leaves the
  receiver with the count \<open>n = n_a + n_b\<close>, the mean \<open>(n_a * mean_a + n_b * mean_b) / n\<close>
  and the sum of squares \<open>m2_a + m2_b + (mean_a - mean_b)\<^sup>2 * (n_a * n_b) / n\<close>, and
  returns the receiver.
\<close>

theorem merge_formula:
  assumes "h self = \<lparr>count = n_a, m1 = mean_a, m2 = m2_a\<rparr>"
    and "h other = \<lparr>count = n_b, m1 = mean_b, m2 = m2_b\<rparr>"
    and "1 \<le> n_a + n_b"
  shows "merge self other h =
           (let n = n_a + n_b
            in (Inr self,
                h(self := \<lparr>count = n,
                            m1 = (of_int n_a * mean_a + of_int n_b * mean_b) / of_int n,
                            m2 = m2_a + m2_b
                                   + (mean_a - mean_b)\<^sup>2 * (of_int n_a * of_int n_b) / of_int n\<rparr>)))"
  using assms by (simp add: merge_eq Let_def)

theorem merge_formula_witness:
  "merge 0 1 (store0(0 := \<lparr>count = 1, m1 = 2, m2 = 0\<rparr>, 1 := \<lparr>count = 1, m1 = 4, m2 = 0\<rparr>))
     = (Inr 0, store0(0 := \<lparr>count = 2, m1 = 3, m2 = 2\<rparr>, 1 := \<lparr>count = 1, m1 = 4, m2 = 0\<rparr>))"
  using merge_formula [of "store0(0 := \<lparr>count = 1, m1 = 2, m2 = 0\<rparr>, 1 := \<lparr>count = 1, m1 = 4, m2 = 0\<rparr>)"
      0 1 2 0 1 1 4 0]
  by (simp add: Let_def fun_upd_twist)

text \<open>
  C4. For a list of at least two values, folded by \<^verbatim>\<open>add\<close> one value after the other
  into an empty accumulator, the property \<^verbatim>\<open>var\<close> is the two-pass sample variance of
  the list. This is the statement over exact arithmetic.
\<close>

theorem var_single_pass:
  assumes "2 \<le> length xs" and "h self = empty_acc"
  shows "fst (add_all self (map Num xs) h) = Inr self
         \<and> var (snd (add_all self (map Num xs) h) self) = Fin (two_pass_var xs)"
  using assms by (simp add: add_all_empty var_summary)

theorem var_single_pass_witness:
  "fst (add_all 0 (map Num [2, 4, 4, 4, 5, 5, 7, 9]) store0) = Inr 0
   \<and> var (snd (add_all 0 (map Num [2, 4, 4, 4, 5, 5, 7, 9]) store0) 0) = Fin (32 / 7)"
proof -
  have "two_pass_var [2, 4, 4, 4, 5, 5, 7, 9] = 32 / 7"
    by (simp add: two_pass_var_def sum_sq_dev_def list_mean_def)
  then show ?thesis
    using var_single_pass [of "[2, 4, 4, 4, 5, 5, 7, 9]" store0 0]
    by (simp add: store0_def)
qed

text \<open>
  C3. An accumulator that holds one observation, here \<^verbatim>\<open>Welford(5.0)\<close>: the count is
  one, the mean is the observation, the sum of squares is zero, and \<^verbatim>\<open>var\<close> and
  \<^verbatim>\<open>std\<close> are not-a-number. The population variance of one value is \<open>0 / 1 = 0\<close>; the
  property \<^verbatim>\<open>varp\<close> tests \<^verbatim>\<open>count < 2\<close>, as \<^verbatim>\<open>var\<close> does, and gives not-a-number,
  and \<^verbatim>\<open>stdp\<close> with it.
\<close>

theorem single_observation_queries:
  "count (snd (init 0 (Elem (Num 5)) store0) 0) = 1
   \<and> mean (snd (init 0 (Elem (Num 5)) store0) 0) = 5
   \<and> m2 (snd (init 0 (Elem (Num 5)) store0) 0) = 0
   \<and> var (snd (init 0 (Elem (Num 5)) store0) 0) = NaN
   \<and> std (snd (init 0 (Elem (Num 5)) store0) 0) = Inr NaN
   \<and> varp (snd (init 0 (Elem (Num 5)) store0) 0) = NaN
   \<and> stdp (snd (init 0 (Elem (Num 5)) store0) 0) = Inr NaN"
  by (simp add: init_Num mean_def var_def varp_def std_def stdp_def)

text \<open>
  C5. A non-empty list split into \<open>as\<close> and \<open>bs\<close>; \<open>as\<close> folded into an empty
  accumulator \<open>x\<close> and \<open>bs\<close> into another empty accumulator \<open>y\<close>. Then \<^verbatim>\<open>x.merge(y)\<close>
  returns \<open>x\<close> with the count, mean and \<^verbatim>\<open>var\<close> of the whole list folded into a single
  empty accumulator \<open>z\<close>, and so does \<^verbatim>\<open>y.merge(x)\<close> for \<open>y\<close>; the whole list may be
  taken in either order of its two parts. This is the statement over exact arithmetic.
\<close>

theorem merge_of_split:
  assumes "as @ bs \<noteq> []" and "x \<noteq> y"
    and "h x = empty_acc" and "h y = empty_acc" and "h z = empty_acc"
  shows "let hx = snd (add_all x (map Num as) h);
             hxy = snd (add_all y (map Num bs) hx);
             whole = snd (add_all z (map Num (as @ bs)) h) z;
             swapped = snd (add_all z (map Num (bs @ as)) h) z;
             xy = snd (merge x y hxy) x;
             yx = snd (merge y x hxy) y
         in fst (merge x y hxy) = Inr x
            \<and> count xy = count whole \<and> mean xy = mean whole \<and> var xy = var whole
            \<and> fst (merge y x hxy) = Inr y
            \<and> count yx = count whole \<and> mean yx = mean whole \<and> var yx = var whole
            \<and> count swapped = count whole \<and> mean swapped = mean whole
            \<and> var swapped = var whole"
proof -
  define hx where "hx = snd (add_all x (map Num as) h)"
  define hxy where "hxy = snd (add_all y (map Num bs) hx)"
  have hx: "hx = h(x := summary as)"
    using assms(3) by (simp add: hx_def add_all_empty)
  have "hx y = empty_acc"
    using assms(2,4) by (simp add: hx)
  then have hxy: "hxy = hx(y := summary bs)"
    by (simp add: hxy_def add_all_empty)
  have sx: "hxy x = summary as" and sy: "hxy y = summary bs"
    using assms(2) by (simp_all add: hxy hx)
  have xy: "merge x y hxy = (Inr x, hxy(x := summary (as @ bs)))"
    using sx sy assms(1) by (rule merge_summary)
  have "bs @ as \<noteq> []" using assms(1) by auto
  with sy sx have "merge y x hxy = (Inr y, hxy(y := summary (bs @ as)))"
    by (rule merge_summary)
  then have yx: "merge y x hxy = (Inr y, hxy(y := summary (as @ bs)))"
    by (simp add: summary_append_commute)
  have whole: "snd (add_all z (map Num (as @ bs)) h) z = summary (as @ bs)"
    using assms(5) add_all_empty [of h z "as @ bs"] by simp
  have "snd (add_all z (map Num (bs @ as)) h) z = summary (bs @ as)"
    using assms(5) add_all_empty [of h z "bs @ as"] by simp
  then have swapped: "snd (add_all z (map Num (bs @ as)) h) z = summary (as @ bs)"
    by (simp add: summary_append_commute)
  show ?thesis
    unfolding Let_def hx_def [symmetric] hxy_def [symmetric] whole swapped xy yx
    by simp
qed

theorem merge_of_split_witness:
  "fst (merge 0 1 (snd (add_all 1 (map Num [3]) (snd (add_all 0 (map Num [1]) store0))))) = Inr 0
   \<and> var (snd (merge 0 1 (snd (add_all 1 (map Num [3]) (snd (add_all 0 (map Num [1]) store0))))) 0)
       = var (snd (add_all 2 (map Num [1, 3]) store0) 2)
   \<and> var (snd (merge 1 0 (snd (add_all 1 (map Num [3]) (snd (add_all 0 (map Num [1]) store0))))) 1)
       = var (snd (add_all 2 (map Num [1, 3]) store0) 2)"
  using merge_of_split [of "[1]" "[3]" 0 1 store0 2]
  by (simp add: Let_def store0_def)






text \<open>
  C8, as the code has it. For an argument \<open>y\<close> that is another object than the receiver
  \<open>x\<close>, \<^verbatim>\<open>x.merge(y)\<close> leaves the whole state of \<open>y\<close> as it was, so its count, mean and
  \<^verbatim>\<open>var\<close> too. When the argument is the receiver itself, \<^verbatim>\<open>x.merge(x)\<close>, the argument is
  mutated with the receiver: an accumulator of count one has count two afterwards.
\<close>

theorem merge_argument_unchanged:
  assumes "y \<noteq> x"
  shows "snd (merge x y h) y = h y
         \<and> count (snd (merge x y h) y) = count (h y)
         \<and> mean (snd (merge x y h) y) = mean (h y)
         \<and> var (snd (merge x y h) y) = var (h y)
         \<and> m2 (snd (merge x y h) y) = m2 (h y)"
  using assms by (simp add: merge_frame)

theorem merge_argument_unchanged_witness:
  "snd (merge 0 1 (store0(0 := \<lparr>count = 1, m1 = 2, m2 = 0\<rparr>, 1 := \<lparr>count = 1, m1 = 4, m2 = 0\<rparr>))) 1
     = \<lparr>count = 1, m1 = 4, m2 = 0\<rparr>"
  using merge_argument_unchanged [of 1 0
      "store0(0 := \<lparr>count = 1, m1 = 2, m2 = 0\<rparr>, 1 := \<lparr>count = 1, m1 = 4, m2 = 0\<rparr>)"]
  by simp

theorem merge_self_counterexample:
  "count ((store0(0 := \<lparr>count = 1, m1 = 5, m2 = 0\<rparr>)) 0) = 1
   \<and> count (snd (merge 0 0 (store0(0 := \<lparr>count = 1, m1 = 5, m2 = 0\<rparr>))) 0) = 2"
  by (simp add: merge_def)





end
